theory Spec2Isabelle
  imports Complex_Main "HOL-Library.AList" "HOL-Library.Sublist"
begin

section \<open>Python values as \<^verbatim>\<open>json.load\<close> produces them\<close>

text \<open>
  The threshold checker \<^verbatim>\<open>tests/load/check_thresholds.py\<close> reads k6 result files with
  \<^verbatim>\<open>json.load\<close> and works on whatever Python value comes back. A dictionary is an
  association list in which the first binding of a key is the one Python holds. A
  Python \<^verbatim>\<open>int\<close> is \<open>PInt\<close>, unbounded and exact as in Python. A Python \<^verbatim>\<open>float\<close> is
  \<open>PNum\<close>, an exact rational standing for the double: rounding of doubles, NaN and
  infinities are not modelled.
\<close>

datatype pyval =
    PNone
  | PBool bool
  | PInt int
  | PNum rat
  | PStr string
  | PList "pyval list"
  | PDict "(string \<times> pyval) list"

datatype pyexc =
    TypeError
  | KeyError string
  | AttributeError
  | ValueError
  | OverflowError
  | IndexError

type_synonym pydict = "(string \<times> pyval) list"

text \<open>Sequencing of computations that may raise: the first exception wins.\<close>

definition and_then :: "'e + 'a \<Rightarrow> ('a \<Rightarrow> 'e + 'b) \<Rightarrow> 'e + 'b" where
  "and_then r f = (case r of Inl e \<Rightarrow> Inl e | Inr a \<Rightarrow> f a)"

text \<open>\<^verbatim>\<open>not x\<close> is \<open>\<not> py_truthy x\<close>.\<close>

fun py_truthy :: "pyval \<Rightarrow> bool" where
  "py_truthy PNone = False"
| "py_truthy (PBool b) = b"
| "py_truthy (PInt n) = (n \<noteq> 0)"
| "py_truthy (PNum r) = (r \<noteq> 0)"
| "py_truthy (PStr s) = (s \<noteq> [])"
| "py_truthy (PList xs) = (xs \<noteq> [])"
| "py_truthy (PDict d) = (d \<noteq> [])"

text \<open>
  \<^verbatim>\<open>key in x\<close> for a string key: key membership in a dictionary, element equality in a
  list, substring in a string, TypeError for anything that is not iterable.
\<close>

fun py_contains :: "string \<Rightarrow> pyval \<Rightarrow> pyexc + bool" where
  "py_contains k (PDict d) = Inr (map_of d k \<noteq> None)"
| "py_contains k (PList xs) = Inr (PStr k \<in> set xs)"
| "py_contains k (PStr s) = Inr (sublist k s)"
| "py_contains k PNone = Inl TypeError"
| "py_contains k (PBool b) = Inl TypeError"
| "py_contains k (PInt n) = Inl TypeError"
| "py_contains k (PNum r) = Inl TypeError"

text \<open>\<^verbatim>\<open>x[key]\<close> for a string key: only a dictionary can be subscripted by a string.\<close>

fun py_getitem :: "pyval \<Rightarrow> string \<Rightarrow> pyexc + pyval" where
  "py_getitem (PDict d) k = (case map_of d k of None \<Rightarrow> Inl (KeyError k) | Some v \<Rightarrow> Inr v)"
| "py_getitem PNone k = Inl TypeError"
| "py_getitem (PBool b) k = Inl TypeError"
| "py_getitem (PInt n) k = Inl TypeError"
| "py_getitem (PNum r) k = Inl TypeError"
| "py_getitem (PStr s) k = Inl TypeError"
| "py_getitem (PList xs) k = Inl TypeError"

text \<open>\<^verbatim>\<open>x.get(key, default)\<close>: only a dictionary has the method.\<close>

fun py_get :: "pyval \<Rightarrow> string \<Rightarrow> pyval \<Rightarrow> pyexc + pyval" where
  "py_get (PDict d) k dflt = (case map_of d k of None \<Rightarrow> Inr dflt | Some v \<Rightarrow> Inr v)"
| "py_get PNone k dflt = Inl AttributeError"
| "py_get (PBool b) k dflt = Inl AttributeError"
| "py_get (PInt n) k dflt = Inl AttributeError"
| "py_get (PNum r) k dflt = Inl AttributeError"
| "py_get (PStr s) k dflt = Inl AttributeError"
| "py_get (PList xs) k dflt = Inl AttributeError"

text \<open>
  \<^verbatim>\<open>x * 100\<close>: arithmetic on a number (a boolean counts as the int 0 or 1),
  repetition of a string or a list, TypeError on None and on a dictionary.
\<close>

fun py_mul_100 :: "pyval \<Rightarrow> pyexc + pyval" where
  "py_mul_100 (PNum r) = Inr (PNum (r * 100))"
| "py_mul_100 (PInt n) = Inr (PInt (n * 100))"
| "py_mul_100 (PBool b) = Inr (PInt (if b then 100 else 0))"
| "py_mul_100 (PStr s) = Inr (PStr (concat (replicate 100 s)))"
| "py_mul_100 (PList xs) = Inr (PList (concat (replicate 100 xs)))"
| "py_mul_100 PNone = Inl TypeError"
| "py_mul_100 (PDict d) = Inl TypeError"

text \<open>\<^verbatim>\<open>100 - x\<close>: defined on numbers and booleans only.\<close>

fun py_100_minus :: "pyval \<Rightarrow> pyexc + pyval" where
  "py_100_minus (PNum r) = Inr (PNum (100 - r))"
| "py_100_minus (PInt n) = Inr (PInt (100 - n))"
| "py_100_minus (PBool b) = Inr (PInt (if b then 99 else 100))"
| "py_100_minus PNone = Inl TypeError"
| "py_100_minus (PStr s) = Inl TypeError"
| "py_100_minus (PList xs) = Inl TypeError"
| "py_100_minus (PDict d) = Inl TypeError"

text \<open>
  \<^verbatim>\<open>x <= t\<close> and \<^verbatim>\<open>x >= t\<close> against a number \<open>t\<close>: an ordering exists between numbers
  (and booleans) only. Python compares an \<^verbatim>\<open>int\<close> with a \<^verbatim>\<open>float\<close> by value, whatever
  the size of the \<^verbatim>\<open>int\<close>.
\<close>

fun py_le :: "pyval \<Rightarrow> rat \<Rightarrow> pyexc + bool" where
  "py_le (PNum r) t = Inr (r \<le> t)"
| "py_le (PInt n) t = Inr (of_int n \<le> t)"
| "py_le (PBool b) t = Inr ((if b then 1 else 0) \<le> t)"
| "py_le PNone t = Inl TypeError"
| "py_le (PStr s) t = Inl TypeError"
| "py_le (PList xs) t = Inl TypeError"
| "py_le (PDict d) t = Inl TypeError"

fun py_ge :: "pyval \<Rightarrow> rat \<Rightarrow> pyexc + bool" where
  "py_ge (PNum r) t = Inr (r \<ge> t)"
| "py_ge (PInt n) t = Inr (of_int n \<ge> t)"
| "py_ge (PBool b) t = Inr ((if b then 1 else 0) \<ge> t)"
| "py_ge PNone t = Inl TypeError"
| "py_ge (PStr s) t = Inl TypeError"
| "py_ge (PList xs) t = Inl TypeError"
| "py_ge (PDict d) t = Inl TypeError"

text \<open>
  The format specifications \<^verbatim>\<open>:.0f\<close> and \<^verbatim>\<open>:.2f\<close> inside an f-string: a float is
  displayed (the model keeps its exact value); an \<^verbatim>\<open>int\<close> or a boolean is converted to a
  float first, which raises OverflowError once the \<^verbatim>\<open>int\<close> rounds to 2 to the power
  1024 or more, that is from \<open>float_overflow_bound\<close> on in magnitude; a string raises
  ValueError, every other value raises TypeError.
\<close>

definition float_overflow_bound :: int where
  "float_overflow_bound = 2 ^ 1024 - 2 ^ 970"

fun py_format_f :: "pyval \<Rightarrow> pyexc + rat" where
  "py_format_f (PNum r) = Inr r"
| "py_format_f (PInt n) =
     (if \<bar>n\<bar> \<ge> float_overflow_bound then Inl OverflowError else Inr (of_int n))"
| "py_format_f (PBool b) = Inr (if b then 1 else 0)"
| "py_format_f (PStr s) = Inl ValueError"
| "py_format_f PNone = Inl TypeError"
| "py_format_f (PList xs) = Inl TypeError"
| "py_format_f (PDict d) = Inl TypeError"

section \<open>Process state: the global table and the console\<close>

text \<open>
  Each \<^verbatim>\<open>print\<close> call of the script is one \<open>line\<close>; colours and the number of decimals
  shown are presentation and are left out, the values displayed are kept.
\<close>

datatype line =
    Usage string
  | Banner
  | Rule
  | ThresholdsHeader
  | ThresholdLine string string rat
  | Analyzing string
  | LoadError string string
  | NoMetrics
  | SummaryHeader
  | SummaryLine string rat
  | ChecksHeader
  | CheckLine bool string rat string rat
  | AllPassed
  | SomeFailed

text \<open>
  \<^verbatim>\<open>THRESHOLDS\<close> is a module-level dictionary, so it is part of the state that every
  function of the script could write to; \<open>stdout\<close> is what has been printed so far.
\<close>

record pstate =
  THRESHOLDS :: "(string \<times> rat) list"
  stdout :: "line list"

definition initial_state :: pstate where
  "initial_state =
     \<lparr>THRESHOLDS = [(''p95_latency_ms'', 500),
                    (''error_rate_percent'', 1 / 10),
                    (''success_rate_percent'', 999 / 10)],
      stdout = []\<rparr>"

definition py_print :: "line \<Rightarrow> pstate \<Rightarrow> pstate" where
  "py_print l s = s\<lparr>stdout := stdout s @ [l]\<rparr>"

text \<open>\<^verbatim>\<open>THRESHOLDS[key]\<close>: KeyError when the table has no such entry.\<close>

definition threshold :: "string \<Rightarrow> pstate \<Rightarrow> pyexc + rat" where
  "threshold k s = (case map_of (THRESHOLDS s) k of None \<Rightarrow> Inl (KeyError k) | Some t \<Rightarrow> Inr t)"

text \<open>
  Sequencing of statements that print and may raise: an exception stops the rest and
  keeps what was printed before it.
\<close>

definition seq :: "(pstate \<Rightarrow> (pyexc + 'a) \<times> pstate) \<Rightarrow> ('a \<Rightarrow> pstate \<Rightarrow> (pyexc + 'b) \<times> pstate)
    \<Rightarrow> pstate \<Rightarrow> (pyexc + 'b) \<times> pstate" where
  "seq m f s = (case m s of (Inl e, s') \<Rightarrow> (Inl e, s') | (Inr a, s') \<Rightarrow> f a s')"

section \<open>\<^verbatim>\<open>load_results\<close>\<close>

text \<open>
  \<^verbatim>\<open>open\<close> followed by \<^verbatim>\<open>json.load\<close> is the environment: for a path it either raises
  an exception (\<open>Inl\<close> its message) or returns the parsed value.
\<close>

type_synonym filesystem = "string \<Rightarrow> string + pyval"

definition load_results :: "filesystem \<Rightarrow> string \<Rightarrow> pstate \<Rightarrow> pyval \<times> pstate" where
  "load_results fs file_path s =
     (case fs file_path of
        Inr v \<Rightarrow> (v, s)
      | Inl e \<Rightarrow> (PDict [], py_print (LoadError file_path e) s))"

section \<open>\<^verbatim>\<open>check_threshold\<close>\<close>

text \<open>
  The comparison comes first, then the result line is formatted and printed. The symbols
  printed are the signs for "at most" and "at least", written here as \<open>''<=''\<close> and
  \<open>''>=''\<close>. The flag \<^verbatim>\<open>lower_is_better\<close> defaults to true in the source; every
  call of the script passes it, so the model takes it as an argument.
\<close>

definition check_threshold :: "string \<Rightarrow> pyval \<Rightarrow> rat \<Rightarrow> bool \<Rightarrow> pstate \<Rightarrow> (pyexc + bool) \<times> pstate" where
  "check_threshold name val thr lower_is_better s =
     (case (if lower_is_better then py_le val thr else py_ge val thr) of
        Inl e \<Rightarrow> (Inl e, s)
      | Inr passed \<Rightarrow>
          (case py_format_f val of
             Inl e \<Rightarrow> (Inl e, s)
           | Inr shown \<Rightarrow>
               (Inr passed,
                py_print (CheckLine passed name shown
                            (if lower_is_better then ''<='' else ''>='') thr) s)))"

section \<open>\<^verbatim>\<open>extract_metrics\<close>\<close>

text \<open>\<^verbatim>\<open>name in data['metrics']\<close>: the subscript is evaluated first, then the membership.\<close>

definition has_group :: "pyval \<Rightarrow> string \<Rightarrow> pyexc + bool" where
  "has_group data name = and_then (py_getitem data ''metrics'') (py_contains name)"

text \<open>\<^verbatim>\<open>data['metrics'][name]['values']\<close>.\<close>

definition group_values :: "pyval \<Rightarrow> string \<Rightarrow> pyexc + pyval" where
  "group_values data name =
     and_then (py_getitem data ''metrics'') (\<lambda>ms.
     and_then (py_getitem ms name) (\<lambda>g. py_getitem g ''values''))"

text \<open>
  One definition for each \<^verbatim>\<open>if\<close> block of \<^verbatim>\<open>extract_metrics\<close>, in the order of the
  source; each takes the dictionary \<^verbatim>\<open>metrics\<close> built so far and returns it updated.
\<close>

definition extract_duration :: "pyval \<Rightarrow> pydict \<Rightarrow> pyexc + pydict" where
  "extract_duration data metrics =
     and_then (has_group data ''http_req_duration'') (\<lambda>present.
     if \<not> present then Inr metrics
     else
       and_then (group_values data ''http_req_duration'') (\<lambda>duration.
       and_then (py_get duration ''avg'' (PInt 0)) (\<lambda>avg.
       and_then (py_get duration ''p(95)'' (PInt 0)) (\<lambda>p95.
       and_then (py_get duration ''p(99)'' (PInt 0)) (\<lambda>p99.
       and_then (py_get duration ''max'' (PInt 0)) (\<lambda>mx.
         Inr (AList.update ''max_latency'' mx
             (AList.update ''p99_latency'' p99
             (AList.update ''p95_latency'' p95
             (AList.update ''avg_latency'' avg metrics))))))))))"

definition extract_failed :: "pyval \<Rightarrow> pydict \<Rightarrow> pyexc + pydict" where
  "extract_failed data metrics =
     and_then (has_group data ''http_req_failed'') (\<lambda>present.
     if \<not> present then Inr metrics
     else
       and_then (group_values data ''http_req_failed'') (\<lambda>failed.
       and_then (py_get failed ''rate'' (PInt 0)) (\<lambda>rate.
       and_then (py_mul_100 rate) (\<lambda>percent.
         Inr (AList.update ''error_rate'' percent metrics)))))"

definition extract_reqs :: "pyval \<Rightarrow> pydict \<Rightarrow> pyexc + pydict" where
  "extract_reqs data metrics =
     and_then (has_group data ''http_reqs'') (\<lambda>present.
     if \<not> present then Inr metrics
     else
       and_then (group_values data ''http_reqs'') (\<lambda>reqs.
       and_then (py_get reqs ''count'' (PInt 0)) (\<lambda>cnt.
       and_then (py_get reqs ''rate'' (PInt 0)) (\<lambda>rate.
         Inr (AList.update ''requests_per_second'' rate
             (AList.update ''total_requests'' cnt metrics))))))"

definition extract_iterations :: "pyval \<Rightarrow> pydict \<Rightarrow> pyexc + pydict" where
  "extract_iterations data metrics =
     and_then (has_group data ''iterations'') (\<lambda>present.
     if \<not> present then Inr metrics
     else
       and_then (group_values data ''iterations'') (\<lambda>iterations.
       and_then (py_get iterations ''count'' (PInt 0)) (\<lambda>cnt.
         Inr (AList.update ''total_iterations'' cnt metrics))))"

definition extract_vus :: "pyval \<Rightarrow> pydict \<Rightarrow> pyexc + pydict" where
  "extract_vus data metrics =
     and_then (has_group data ''vus'') (\<lambda>present.
     if \<not> present then Inr metrics
     else
       and_then (group_values data ''vus'') (\<lambda>vus.
       and_then (py_get vus ''max'' (PInt 0)) (\<lambda>mx.
         Inr (AList.update ''max_vus'' mx metrics))))"

definition extract_metrics :: "pyval \<Rightarrow> pyexc + pydict" where
  "extract_metrics data =
     and_then (py_contains ''metrics'' data) (\<lambda>present.
     if \<not> present then Inr []
     else
       and_then (extract_duration data []) (\<lambda>m1.
       and_then (extract_failed data m1) (\<lambda>m2.
       and_then (extract_reqs data m2) (\<lambda>m3.
       and_then (extract_iterations data m3) (\<lambda>m4.
       extract_vus data m4)))))"

section \<open>\<^verbatim>\<open>analyze_results\<close>\<close>

text \<open>
  A line of the summary block: \<^verbatim>\<open>metrics.get(key, 0)\<close> under a float format. The
  format raises on a value that is not a number, after the lines before it were printed.
\<close>

definition summary_line :: "string \<Rightarrow> string \<Rightarrow> pydict \<Rightarrow> pstate \<Rightarrow> (pyexc + unit) \<times> pstate" where
  "summary_line label key metrics s =
     (case py_format_f (case map_of metrics key of None \<Rightarrow> PInt 0 | Some v \<Rightarrow> v) of
        Inl e \<Rightarrow> (Inl e, s)
      | Inr shown \<Rightarrow> (Inr (), py_print (SummaryLine label shown) s))"

definition print_summary :: "pydict \<Rightarrow> pstate \<Rightarrow> (pyexc + unit) \<times> pstate" where
  "print_summary metrics s =
     seq (summary_line ''Total Requests'' ''total_requests'' metrics) (\<lambda>_.
     seq (summary_line ''RPS'' ''requests_per_second'' metrics) (\<lambda>_.
     seq (summary_line ''Max VUs'' ''max_vus'' metrics) (\<lambda>_.
     seq (summary_line ''Avg Latency'' ''avg_latency'' metrics) (\<lambda>_.
     seq (summary_line ''P95 Latency'' ''p95_latency'' metrics) (\<lambda>_.
     seq (summary_line ''P99 Latency'' ''p99_latency'' metrics) (\<lambda>_.
     summary_line ''Error Rate'' ''error_rate'' metrics))))))
     (py_print SummaryHeader s)"

text \<open>
  The three guarded checks, in the order of the source. Each takes the running
  \<^verbatim>\<open>all_passed\<close> and returns it updated; the arguments of \<^verbatim>\<open>check_threshold\<close> are
  evaluated before the call, the metric before the table entry.
\<close>

definition check_p95 :: "pydict \<Rightarrow> bool \<Rightarrow> pstate \<Rightarrow> (pyexc + bool) \<times> pstate" where
  "check_p95 metrics all_passed s =
     (case map_of metrics ''p95_latency'' of
        None \<Rightarrow> (Inr all_passed, s)
      | Some v \<Rightarrow>
          (case threshold ''p95_latency_ms'' s of
             Inl e \<Rightarrow> (Inl e, s)
           | Inr thr \<Rightarrow>
               seq (check_threshold ''P95 Latency'' v thr True)
                   (\<lambda>passed s'. (Inr (all_passed \<and> passed), s')) s))"

definition check_error_rate :: "pydict \<Rightarrow> bool \<Rightarrow> pstate \<Rightarrow> (pyexc + bool) \<times> pstate" where
  "check_error_rate metrics all_passed s =
     (case map_of metrics ''error_rate'' of
        None \<Rightarrow> (Inr all_passed, s)
      | Some v \<Rightarrow>
          (case threshold ''error_rate_percent'' s of
             Inl e \<Rightarrow> (Inl e, s)
           | Inr thr \<Rightarrow>
               seq (check_threshold ''Error Rate'' v thr True)
                   (\<lambda>passed s'. (Inr (all_passed \<and> passed), s')) s))"

definition check_success_rate :: "pydict \<Rightarrow> bool \<Rightarrow> pstate \<Rightarrow> (pyexc + bool) \<times> pstate" where
  "check_success_rate metrics all_passed s =
     (case map_of metrics ''error_rate'' of
        None \<Rightarrow> (Inr all_passed, s)
      | Some v \<Rightarrow>
          (case py_100_minus v of
             Inl e \<Rightarrow> (Inl e, s)
           | Inr success_rate \<Rightarrow>
               (case threshold ''success_rate_percent'' s of
                  Inl e \<Rightarrow> (Inl e, s)
                | Inr thr \<Rightarrow>
                    seq (check_threshold ''Success Rate'' success_rate thr False)
                        (\<lambda>passed s'. (Inr (all_passed \<and> passed), s')) s)))"

definition threshold_checks :: "pydict \<Rightarrow> pstate \<Rightarrow> (pyexc + bool) \<times> pstate" where
  "threshold_checks metrics s =
     seq (check_p95 metrics True) (\<lambda>all_passed.
     seq (check_error_rate metrics all_passed) (\<lambda>all_passed.
     check_success_rate metrics all_passed))
     (py_print ChecksHeader s)"

definition analyze_results :: "filesystem \<Rightarrow> string \<Rightarrow> pstate \<Rightarrow> (pyexc + bool) \<times> pstate" where
  "analyze_results fs file_path s =
     (case load_results fs file_path (py_print Rule (py_print (Analyzing file_path) s)) of
        (data, s1) \<Rightarrow>
          if \<not> py_truthy data then (Inr False, s1)
          else
            (case extract_metrics data of
               Inl e \<Rightarrow> (Inl e, s1)
             | Inr metrics \<Rightarrow>
                 if metrics = [] then (Inr False, py_print NoMetrics s1)
                 else seq (print_summary metrics) (\<lambda>_. threshold_checks metrics) s1))"

section \<open>\<^verbatim>\<open>main\<close>\<close>

text \<open>
  The process ends by \<^verbatim>\<open>sys.exit\<close> with a code, or by an exception nobody catches, for
  which the interpreter prints a traceback and exits with status 1.
\<close>

datatype outcome = Exit int | Uncaught pyexc

fun exit_code :: "outcome \<Rightarrow> int" where
  "exit_code (Exit n) = n"
| "exit_code (Uncaught e) = 1"

definition threshold_line :: "string \<Rightarrow> string \<Rightarrow> string \<Rightarrow> pstate \<Rightarrow> (pyexc + unit) \<times> pstate" where
  "threshold_line label symbol key s =
     (case threshold key s of
        Inl e \<Rightarrow> (Inl e, s)
      | Inr thr \<Rightarrow> (Inr (), py_print (ThresholdLine label symbol thr) s))"

definition print_thresholds :: "pstate \<Rightarrow> (pyexc + unit) \<times> pstate" where
  "print_thresholds s =
     seq (threshold_line ''P95 Latency'' ''<='' ''p95_latency_ms'') (\<lambda>_.
     seq (threshold_line ''Error Rate'' ''<='' ''error_rate_percent'') (\<lambda>_.
     threshold_line ''Success Rate'' ''>='' ''success_rate_percent''))
     (py_print ThresholdsHeader (py_print Rule (py_print Banner s)))"

text \<open>The \<^verbatim>\<open>for\<close> loop of \<^verbatim>\<open>main\<close> over the files, with the running \<^verbatim>\<open>all_passed\<close>.\<close>

fun main_loop :: "filesystem \<Rightarrow> string list \<Rightarrow> bool \<Rightarrow> pstate \<Rightarrow> (pyexc + bool) \<times> pstate" where
  "main_loop fs [] all_passed s = (Inr all_passed, s)"
| "main_loop fs (file_path # rest) all_passed s =
     (case analyze_results fs file_path s of
        (Inl e, s') \<Rightarrow> (Inl e, s')
      | (Inr passed, s') \<Rightarrow> main_loop fs rest (all_passed \<and> passed) s')"

text \<open>
  \<open>argv\<close> is \<^verbatim>\<open>sys.argv\<close>, the program name first. The usage message reads
  \<^verbatim>\<open>sys.argv[0]\<close>, which raises IndexError on an empty list.
\<close>

definition main :: "filesystem \<Rightarrow> string list \<Rightarrow> pstate \<Rightarrow> outcome \<times> pstate" where
  "main fs argv s =
     (if length argv < 2 then
        (case argv of
           [] \<Rightarrow> (Uncaught IndexError, s)
         | prog # _ \<Rightarrow> (Exit 1, py_print (Usage prog) s))
      else
        (case seq print_thresholds (\<lambda>_. main_loop fs (tl argv) True) s of
           (Inl e, s') \<Rightarrow> (Uncaught e, s')
         | (Inr all_passed, s') \<Rightarrow>
             if all_passed then (Exit 0, py_print AllPassed (py_print Rule s'))
             else (Exit 1, py_print SomeFailed (py_print Rule s'))))"

section \<open>Inputs and vocabulary for the properties\<close>

text \<open>
  A directory of files that parse: a path in the list loads to its document, any other
  path makes \<^verbatim>\<open>open\<close> raise.
\<close>

definition directory :: "(string \<times> pyval) list \<Rightarrow> filesystem" where
  "directory files path =
     (case map_of files path of
        None \<Rightarrow> Inl ''No such file or directory''
      | Some doc \<Rightarrow> Inr doc)"

text \<open>
  A k6 result document with \<^verbatim>\<open>http_req_duration.values.p(95)\<close> and
  \<^verbatim>\<open>http_req_failed.values.rate\<close> set, one with the duration group only, and one
  with the \<^verbatim>\<open>vus\<close> group only.
\<close>

definition result_document :: "rat \<Rightarrow> rat \<Rightarrow> pyval" where
  "result_document p95 rate =
     PDict [(''metrics'', PDict
       [(''http_req_duration'', PDict [(''values'', PDict [(''p(95)'', PNum p95)])]),
        (''http_req_failed'', PDict [(''values'', PDict [(''rate'', PNum rate)])])])]"

definition duration_document :: "rat \<Rightarrow> pyval" where
  "duration_document p95 =
     PDict [(''metrics'', PDict
       [(''http_req_duration'', PDict [(''values'', PDict [(''p(95)'', PNum p95)])])])]"

definition vus_document :: "pyval \<Rightarrow> pyval" where
  "vus_document mx =
     PDict [(''metrics'', PDict [(''vus'', PDict [(''values'', PDict [(''max'', mx)])])])]"

text \<open>The lines that \<^verbatim>\<open>check_threshold\<close> prints, one for each check that ran.\<close>

fun is_check :: "line \<Rightarrow> bool" where
  "is_check (CheckLine passed name shown symbol thr) = True"
| "is_check (Usage prog) = False"
| "is_check Banner = False"
| "is_check Rule = False"
| "is_check ThresholdsHeader = False"
| "is_check (ThresholdLine label symbol thr) = False"
| "is_check (Analyzing file_path) = False"
| "is_check (LoadError file_path err) = False"
| "is_check NoMetrics = False"
| "is_check SummaryHeader = False"
| "is_check (SummaryLine label shown) = False"
| "is_check ChecksHeader = False"
| "is_check AllPassed = False"
| "is_check SomeFailed = False"

text \<open>
  \<^verbatim>\<open>extract_metrics\<close> is annotated to return \<^verbatim>\<open>Dict[str, float]\<close>, but Python does not
  enforce it: whatever JSON value is stored under \<^verbatim>\<open>values\<close> is copied into the
  mapping as it is. \<open>displayable\<close> holds of the values that the float format accepts,
  and \<open>summary_displayable\<close> says that every value the summary block prints is one.
\<close>

fun displayable :: "pyval \<Rightarrow> bool" where
  "displayable (PNum r) = True"
| "displayable (PInt n) = (\<bar>n\<bar> < float_overflow_bound)"
| "displayable (PBool b) = True"
| "displayable PNone = False"
| "displayable (PStr s) = False"
| "displayable (PList xs) = False"
| "displayable (PDict d) = False"

definition displayable_at :: "pydict \<Rightarrow> string \<Rightarrow> bool" where
  "displayable_at metrics key =
     (case map_of metrics key of None \<Rightarrow> True | Some v \<Rightarrow> displayable v)"

definition summary_displayable :: "pydict \<Rightarrow> bool" where
  "summary_displayable metrics =
     list_all (displayable_at metrics)
       [''total_requests'', ''requests_per_second'', ''max_vus'', ''avg_latency'',
        ''p95_latency'', ''p99_latency'', ''error_rate'']"

text \<open>
  A document that parses but is not a k6 summary: the duration group has no
  \<^verbatim>\<open>values\<close> entry.
\<close>

definition malformed_document :: pyval where
  "malformed_document = PDict [(''metrics'', PDict [(''http_req_duration'', PDict [])])]"

text \<open>What the summary block displays for a key: \<^verbatim>\<open>metrics.get(key, 0)\<close> as a number.\<close>

definition displayed :: "pydict \<Rightarrow> string \<Rightarrow> rat" where
  "displayed metrics key =
     (case map_of metrics key of
        None \<Rightarrow> 0
      | Some v \<Rightarrow> (case py_format_f v of Inl e \<Rightarrow> 0 | Inr r \<Rightarrow> r))"

section \<open>Every operation only appends to the console\<close>

text \<open>
  An operation is \<open>console_only\<close> when, for a given table, its result and the lines it
  prints are fixed, whatever was printed before, and the table comes back as it went in.
\<close>

definition console_only :: "(pstate \<Rightarrow> 'a \<times> pstate) \<Rightarrow> bool" where
  "console_only c \<longleftrightarrow>
     (\<forall>T. \<exists>r ls. \<forall>out. c \<lparr>THRESHOLDS = T, stdout = out\<rparr> = (r, \<lparr>THRESHOLDS = T, stdout = out @ ls\<rparr>))"

lemma console_onlyD:
  "console_only c \<Longrightarrow>
     \<exists>r ls. \<forall>out. c \<lparr>THRESHOLDS = T, stdout = out\<rparr> = (r, \<lparr>THRESHOLDS = T, stdout = out @ ls\<rparr>)"
  by (simp add: console_only_def)

lemma pstate_eta: "\<lparr>THRESHOLDS = THRESHOLDS s, stdout = stdout s\<rparr> = (s::pstate)"
  by simp

lemma console_only_eqI: "(\<And>s. c s = d s) \<Longrightarrow> console_only d \<Longrightarrow> console_only c"
  by (simp add: console_only_def)

lemma console_only_return: "console_only (\<lambda>s. (r, s))"
  unfolding console_only_def by (intro allI exI[of _ r] exI[of _ "[]"]) simp

lemma console_only_print: "console_only (\<lambda>s. (r, py_print l s))"
  unfolding console_only_def by (intro allI exI[of _ r] exI[of _ "[l]"]) (simp add: py_print_def)

lemma console_only_after_print:
  assumes "console_only c" shows "console_only (\<lambda>s. c (py_print l s))"
proof (unfold console_only_def, intro allI)
  fix T
  from console_onlyD[OF assms, of T] obtain r ls
    where c: "\<And>out. c \<lparr>THRESHOLDS = T, stdout = out\<rparr> = (r, \<lparr>THRESHOLDS = T, stdout = out @ ls\<rparr>)"
    by blast
  show "\<exists>r ls. \<forall>out. c (py_print l \<lparr>THRESHOLDS = T, stdout = out\<rparr>) = (r, \<lparr>THRESHOLDS = T, stdout = out @ ls\<rparr>)"
    by (intro exI[of _ r] exI[of _ "l # ls"]) (simp add: py_print_def c)
qed

lemma console_only_seq:
  assumes "console_only m" and "\<And>a. console_only (f a)"
  shows "console_only (seq m f)"
proof (unfold console_only_def, intro allI)
  fix T
  from console_onlyD[OF assms(1), of T] obtain r ls
    where m: "\<And>out. m \<lparr>THRESHOLDS = T, stdout = out\<rparr> = (r, \<lparr>THRESHOLDS = T, stdout = out @ ls\<rparr>)"
    by blast
  show "\<exists>r' ls'. \<forall>out. seq m f \<lparr>THRESHOLDS = T, stdout = out\<rparr> = (r', \<lparr>THRESHOLDS = T, stdout = out @ ls'\<rparr>)"
  proof (cases r)
    case (Inl e)
    show ?thesis
      by (intro exI[of _ "Inl e"] exI[of _ ls]) (simp add: seq_def m Inl)
  next
    case (Inr a)
    from console_onlyD[OF assms(2)[of a], of T] obtain r2 ls2
      where f: "\<And>out. f a \<lparr>THRESHOLDS = T, stdout = out\<rparr> = (r2, \<lparr>THRESHOLDS = T, stdout = out @ ls2\<rparr>)"
      by blast
    show ?thesis
      by (intro exI[of _ r2] exI[of _ "ls @ ls2"]) (simp add: seq_def m Inr f)
  qed
qed

lemma console_only_threshold:
  assumes "\<And>e. console_only (g e)" and "\<And>t. console_only (f t)"
  shows "console_only (\<lambda>s. case threshold k s of Inl e \<Rightarrow> g e s | Inr t \<Rightarrow> f t s)"
proof (unfold console_only_def, intro allI)
  fix T
  show "\<exists>r ls. \<forall>out. (case threshold k \<lparr>THRESHOLDS = T, stdout = out\<rparr> of Inl e \<Rightarrow> g e \<lparr>THRESHOLDS = T, stdout = out\<rparr>
        | Inr t \<Rightarrow> f t \<lparr>THRESHOLDS = T, stdout = out\<rparr>) = (r, \<lparr>THRESHOLDS = T, stdout = out @ ls\<rparr>)"
  proof (cases "map_of T k")
    case None
    from console_onlyD[OF assms(1)[of "KeyError k"], of T] obtain r ls
      where "\<And>out. g (KeyError k) \<lparr>THRESHOLDS = T, stdout = out\<rparr> = (r, \<lparr>THRESHOLDS = T, stdout = out @ ls\<rparr>)"
      by blast
    then show ?thesis
      by (intro exI[of _ r] exI[of _ ls]) (simp add: threshold_def None)
  next
    case (Some t)
    from console_onlyD[OF assms(2)[of t], of T] obtain r ls
      where "\<And>out. f t \<lparr>THRESHOLDS = T, stdout = out\<rparr> = (r, \<lparr>THRESHOLDS = T, stdout = out @ ls\<rparr>)"
      by blast
    then show ?thesis
      by (intro exI[of _ r] exI[of _ ls]) (simp add: threshold_def Some)
  qed
qed

lemma console_only_THRESHOLDS:
  assumes "console_only c" shows "THRESHOLDS (snd (c s)) = THRESHOLDS s"
proof -
  from console_onlyD[OF assms, of "THRESHOLDS s"] obtain r ls
    where "\<And>out. c \<lparr>THRESHOLDS = THRESHOLDS s, stdout = out\<rparr> = (r, \<lparr>THRESHOLDS = THRESHOLDS s, stdout = out @ ls\<rparr>)"
    by blast
  from this[of "stdout s"] show ?thesis by (simp add: pstate_eta)
qed

lemma console_only_stdout:
  assumes "console_only c" shows "\<exists>ls. stdout (snd (c s)) = stdout s @ ls"
proof -
  from console_onlyD[OF assms, of "THRESHOLDS s"] obtain r ls
    where "\<And>out. c \<lparr>THRESHOLDS = THRESHOLDS s, stdout = out\<rparr> = (r, \<lparr>THRESHOLDS = THRESHOLDS s, stdout = out @ ls\<rparr>)"
    by blast
  from this[of "stdout s"] show ?thesis by (simp add: pstate_eta)
qed

lemma console_only_fst:
  assumes "console_only c" and "THRESHOLDS s = THRESHOLDS t"
  shows "fst (c s) = fst (c t)"
proof -
  from console_onlyD[OF assms(1), of "THRESHOLDS s"] obtain r ls
    where c: "\<And>out. c \<lparr>THRESHOLDS = THRESHOLDS s, stdout = out\<rparr> = (r, \<lparr>THRESHOLDS = THRESHOLDS s, stdout = out @ ls\<rparr>)"
    by blast
  have "fst (c s) = r" using c[of "stdout s"] by (simp add: pstate_eta)
  moreover have "fst (c t) = r" using c[of "stdout t"] pstate_eta[of t] assms(2) by simp
  ultimately show ?thesis by simp
qed

lemma console_only_case_option:
  assumes "console_only a" and "\<And>v. console_only (b v)"
  shows "console_only (\<lambda>s. case x of None \<Rightarrow> a s | Some v \<Rightarrow> b v s)"
  using assms by (cases x) simp_all

lemma console_only_case_sum:
  assumes "\<And>e. console_only (a e)" and "\<And>v. console_only (b v)"
  shows "console_only (\<lambda>s. case x of Inl e \<Rightarrow> a e s | Inr v \<Rightarrow> b v s)"
  using assms by (cases x) simp_all

lemma console_only_case_list:
  assumes "console_only a" and "\<And>y ys. console_only (b y ys)"
  shows "console_only (\<lambda>s. case x of [] \<Rightarrow> a s | y # ys \<Rightarrow> b y ys s)"
  using assms by (cases x) simp_all

lemma console_only_if:
  assumes "console_only a" and "console_only b"
  shows "console_only (\<lambda>s. if P then a s else b s)"
  using assms by (cases P) simp_all

lemma console_only_bind_pair:
  assumes "console_only c" and "\<And>a. console_only (f a)"
  shows "console_only (\<lambda>s. case c s of (a, s') \<Rightarrow> f a s')"
proof (unfold console_only_def, intro allI)
  fix T
  from console_onlyD[OF assms(1), of T] obtain r ls
    where c: "\<And>out. c \<lparr>THRESHOLDS = T, stdout = out\<rparr> = (r, \<lparr>THRESHOLDS = T, stdout = out @ ls\<rparr>)"
    by blast
  from console_onlyD[OF assms(2)[of r], of T] obtain r2 ls2
    where f: "\<And>out. f r \<lparr>THRESHOLDS = T, stdout = out\<rparr> = (r2, \<lparr>THRESHOLDS = T, stdout = out @ ls2\<rparr>)"
    by blast
  show "\<exists>r' ls'. \<forall>out. (case c \<lparr>THRESHOLDS = T, stdout = out\<rparr> of (a, s') \<Rightarrow> f a s')
          = (r', \<lparr>THRESHOLDS = T, stdout = out @ ls'\<rparr>)"
    by (intro exI[of _ r2] exI[of _ "ls @ ls2"]) (simp add: c f)
qed

lemmas console_only_intros =
  console_only_return console_only_print console_only_after_print console_only_seq
  console_only_threshold console_only_case_option console_only_case_sum console_only_case_list
  console_only_if console_only_bind_pair

lemma check_threshold_console: "console_only (check_threshold name v thr b)"
  apply (rule console_only_eqI, rule check_threshold_def)
  apply (cases "if b then py_le v thr else py_ge v thr"; cases "py_format_f v")
  apply (simp_all add: console_only_return console_only_print)
  done

lemma summary_line_console: "console_only (summary_line label key metrics)"
  apply (rule console_only_eqI, rule summary_line_def)
  apply (cases "py_format_f (case map_of metrics key of None \<Rightarrow> PInt 0 | Some v \<Rightarrow> v)")
  apply (simp_all add: console_only_return console_only_print)
  done

lemma print_summary_console: "console_only (print_summary metrics)"
  apply (rule console_only_eqI, rule print_summary_def)
  apply (intro console_only_after_print console_only_seq summary_line_console)
  done


lemma check_p95_console: "console_only (check_p95 metrics all_passed)"
  by (rule console_only_eqI, rule check_p95_def)
     (intro console_only_intros check_threshold_console)

lemma check_error_rate_console: "console_only (check_error_rate metrics all_passed)"
  by (rule console_only_eqI, rule check_error_rate_def)
     (intro console_only_intros check_threshold_console)

lemma check_success_rate_console: "console_only (check_success_rate metrics all_passed)"
  by (rule console_only_eqI, rule check_success_rate_def)
     (intro console_only_intros check_threshold_console)

lemma threshold_checks_console: "console_only (threshold_checks metrics)"
  by (rule console_only_eqI, rule threshold_checks_def)
     (intro console_only_intros check_p95_console check_error_rate_console
        check_success_rate_console)

lemma load_results_console: "console_only (load_results fs file_path)"
  by (rule console_only_eqI, rule load_results_def) (intro console_only_intros)

lemma analyze_results_console: "console_only (analyze_results fs file_path)"
  by (rule console_only_eqI, rule analyze_results_def)
     (intro console_only_intros load_results_console print_summary_console
        threshold_checks_console)

lemma threshold_line_console: "console_only (threshold_line label symbol key)"
  by (rule console_only_eqI, rule threshold_line_def) (intro console_only_intros)

lemma print_thresholds_console: "console_only print_thresholds"
  by (rule console_only_eqI, rule print_thresholds_def)
     (intro console_only_intros threshold_line_console)

lemma main_loop_Cons:
  "main_loop fs (file_path # rest) all_passed =
     seq (analyze_results fs file_path) (\<lambda>passed. main_loop fs rest (all_passed \<and> passed))"
  by (rule ext) (simp add: seq_def split: prod.splits sum.splits)

lemma main_loop_console: "console_only (main_loop fs files all_passed)"
proof (induction files arbitrary: all_passed)
  case Nil
  show ?case
    by (rule console_only_eqI[where d = "\<lambda>s. (Inr all_passed, s)"]) (simp_all add: console_only_return)
next
  case (Cons file_path rest)
  show ?case
    unfolding main_loop_Cons by (intro console_only_seq analyze_results_console Cons.IH)
qed

lemma main_console: "console_only (main fs argv)"
  by (rule console_only_eqI, rule main_def)
     (intro console_only_intros print_thresholds_console main_loop_console)

section \<open>Facts about the operations\<close>

lemmas run_defs =
  directory_def result_document_def duration_document_def vus_document_def
  malformed_document_def main_def seq_def print_thresholds_def
  threshold_line_def threshold_def initial_state_def py_print_def analyze_results_def
  load_results_def extract_metrics_def extract_duration_def extract_failed_def
  extract_reqs_def extract_iterations_def extract_vus_def has_group_def group_values_def
  and_then_def print_summary_def summary_line_def threshold_checks_def check_p95_def
  check_error_rate_def check_success_rate_def check_threshold_def

lemma float_overflow_bound_pos [simp]: "\<not> float_overflow_bound \<le> 0"
proof -
  have "(2::int) ^ 970 < 2 ^ 1024"
    by (rule power_strict_increasing) simp_all
  then show ?thesis
    by (simp add: float_overflow_bound_def)
qed

lemma THRESHOLDS_py_print [simp]: "THRESHOLDS (py_print l s) = THRESHOLDS s"
  by (simp add: py_print_def)

lemma stdout_py_print [simp]: "stdout (py_print l s) = stdout s @ [l]"
  by (simp add: py_print_def)

lemma threshold_initial:
  assumes "THRESHOLDS s = THRESHOLDS initial_state"
  shows "threshold ''p95_latency_ms'' s = Inr 500"
    and "threshold ''error_rate_percent'' s = Inr (1 / 10)"
    and "threshold ''success_rate_percent'' s = Inr (999 / 10)"
  using assms by (simp_all add: threshold_def initial_state_def)

lemma print_thresholds_initial:
  assumes "THRESHOLDS s = THRESHOLDS initial_state"
  shows "print_thresholds s =
           (Inr (),
            py_print (ThresholdLine ''Success Rate'' ''>='' (999 / 10))
           (py_print (ThresholdLine ''Error Rate'' ''<='' (1 / 10))
           (py_print (ThresholdLine ''P95 Latency'' ''<='' 500)
           (py_print ThresholdsHeader (py_print Rule (py_print Banner s))))))"
  using assms by (simp add: print_thresholds_def seq_def threshold_line_def threshold_initial)

subsection \<open>The batch\<close>

lemma main_loop_all:
  assumes "THRESHOLDS s = THRESHOLDS initial_state"
  shows "fst (main_loop fs files all_passed s) = Inr True \<longleftrightarrow>
           all_passed \<and> list_all (\<lambda>p. fst (analyze_results fs p initial_state) = Inr True) files"
  using assms
proof (induction files arbitrary: all_passed s)
  case Nil
  show ?case by simp
next
  case (Cons file_path rest)
  obtain r s' where run: "analyze_results fs file_path s = (r, s')"
    by (cases "analyze_results fs file_path s")
  have r: "fst (analyze_results fs file_path initial_state) = r"
    using console_only_fst[OF analyze_results_console Cons.prems, of fs file_path] run by simp
  have s': "THRESHOLDS s' = THRESHOLDS initial_state"
    using console_only_THRESHOLDS[OF analyze_results_console, of fs file_path s] run Cons.prems
    by simp
  show ?case
  proof (cases r)
    case (Inl e)
    with run r show ?thesis by simp
  next
    case (Inr passed)
    with run r Cons.IH[OF s', of "all_passed \<and> passed"] show ?thesis by auto
  qed
qed

lemma main_exit_code:
  "exit_code (fst (main fs (prog # file_path # rest) s)) =
     (if fst (seq print_thresholds (\<lambda>_. main_loop fs (file_path # rest) True) s) = Inr True
      then 0 else 1)"
  by (simp add: main_def split: prod.splits sum.splits)

lemma main_exit_code_files:
  "exit_code (fst (main fs (prog # file_path # rest) initial_state)) =
     (if list_all (\<lambda>p. fst (analyze_results fs p initial_state) = Inr True) (file_path # rest)
      then 0 else 1)"
proof -
  let ?s = "py_print (ThresholdLine ''Success Rate'' ''>='' (999 / 10))
           (py_print (ThresholdLine ''Error Rate'' ''<='' (1 / 10))
           (py_print (ThresholdLine ''P95 Latency'' ''<='' 500)
           (py_print ThresholdsHeader (py_print Rule (py_print Banner initial_state)))))"
  have "seq print_thresholds (\<lambda>_. main_loop fs (file_path # rest) True) initial_state =
          main_loop fs (file_path # rest) True ?s"
    by (simp add: seq_def print_thresholds_initial)
  moreover have "THRESHOLDS ?s = THRESHOLDS initial_state" by simp
  ultimately show ?thesis
    using main_loop_all[of ?s fs "file_path # rest" True]
    by (simp only: main_exit_code) simp
qed

lemma analyze_results_header:
  "\<exists>ls. stdout (snd (analyze_results fs file_path s)) = stdout s @ Analyzing file_path # Rule # ls"
proof -
  let ?rest = "\<lambda>s1. case load_results fs file_path s1 of
        (data, s2) \<Rightarrow>
          if \<not> py_truthy data then (Inr False, s2)
          else
            (case extract_metrics data of
               Inl e \<Rightarrow> (Inl e, s2)
             | Inr metrics \<Rightarrow>
                 if metrics = [] then (Inr False, py_print NoMetrics s2)
                 else seq (print_summary metrics) (\<lambda>_. threshold_checks metrics) s2)"
  let ?s1 = "py_print Rule (py_print (Analyzing file_path) s)"
  have "console_only ?rest"
    by (intro console_only_intros load_results_console print_summary_console
          threshold_checks_console)
  then obtain ls where "stdout (snd (?rest ?s1)) = stdout ?s1 @ ls"
    using console_only_stdout by blast
  moreover have "analyze_results fs file_path s = ?rest ?s1"
    by (simp add: analyze_results_def)
  ultimately show ?thesis by simp
qed

lemma main_loop_header:
  "\<exists>ls. stdout (snd (main_loop fs (file_path # rest) all_passed s))
         = stdout s @ Analyzing file_path # Rule # ls"
proof -
  obtain r s' where run: "analyze_results fs file_path s = (r, s')"
    by (cases "analyze_results fs file_path s")
  from analyze_results_header[of fs file_path s] run
  obtain ls where s': "stdout s' = stdout s @ Analyzing file_path # Rule # ls"
    by auto
  show ?thesis
  proof (cases r)
    case (Inl e)
    with run s' show ?thesis by simp
  next
    case (Inr passed)
    from console_only_stdout[OF main_loop_console, of fs rest "all_passed \<and> passed" s']
    obtain ls' where "stdout (snd (main_loop fs rest (all_passed \<and> passed) s')) = stdout s' @ ls'"
      by blast
    with run s' Inr show ?thesis by simp
  qed
qed

lemma main_stdout_after_loop:
  assumes "seq print_thresholds (\<lambda>_. main_loop fs (file_path # rest) True) s = (r, s')"
  shows "\<exists>ls. stdout (snd (main fs (prog # file_path # rest) s)) = stdout s' @ ls"
  using assms by (simp add: main_def split: sum.splits)

subsection \<open>One file\<close>


lemma extract_duration_other:
  assumes "extract_duration data m = Inr m'"
    and "k \<notin> {''avg_latency'', ''p95_latency'', ''p99_latency'', ''max_latency''}"
  shows "map_of m' k = map_of m k"
  using assms
  by (auto simp: extract_duration_def and_then_def AList.update_conv' split: sum.splits if_splits)

lemma extract_failed_other:
  assumes "extract_failed data m = Inr m'" and "k \<noteq> ''error_rate''"
  shows "map_of m' k = map_of m k"
  using assms
  by (auto simp: extract_failed_def and_then_def AList.update_conv' split: sum.splits if_splits)

lemma extract_reqs_other:
  assumes "extract_reqs data m = Inr m'"
    and "k \<notin> {''total_requests'', ''requests_per_second''}"
  shows "map_of m' k = map_of m k"
  using assms
  by (auto simp: extract_reqs_def and_then_def AList.update_conv' split: sum.splits if_splits)

lemma extract_iterations_other:
  assumes "extract_iterations data m = Inr m'" and "k \<noteq> ''total_iterations''"
  shows "map_of m' k = map_of m k"
  using assms
  by (auto simp: extract_iterations_def and_then_def AList.update_conv' split: sum.splits if_splits)

lemma extract_vus_other:
  assumes "extract_vus data m = Inr m'" and "k \<noteq> ''max_vus''"
  shows "map_of m' k = map_of m k"
  using assms
  by (auto simp: extract_vus_def and_then_def AList.update_conv' split: sum.splits if_splits)

lemma extract_failed_absent:
  assumes "has_group data ''http_req_failed'' = Inr False"
  shows "extract_failed data m = Inr m"
  using assms by (simp add: extract_failed_def and_then_def)

lemma extract_metrics_no_failed_group:
  assumes "has_group data ''http_req_failed'' = Inr False"
    and "extract_metrics data = Inr m"
  shows "map_of m ''error_rate'' = None"
proof (cases "py_contains ''metrics'' data")
  case (Inl e)
  with assms(2) show ?thesis by (simp add: extract_metrics_def and_then_def)
next
  case (Inr present)
  show ?thesis
  proof (cases present)
    case False
    with Inr assms(2) show ?thesis by (simp add: extract_metrics_def and_then_def)
  next
    case True
    with Inr assms obtain m1 m3 m4
      where 1: "extract_duration data [] = Inr m1"
        and 3: "extract_reqs data m1 = Inr m3"
        and 4: "extract_iterations data m3 = Inr m4"
        and 5: "extract_vus data m4 = Inr m"
      by (auto simp: extract_metrics_def and_then_def extract_failed_absent split: sum.splits)
    have "map_of m ''error_rate'' = map_of m4 ''error_rate''"
      using extract_vus_other[OF 5] by simp
    also have "\<dots> = map_of m3 ''error_rate''"
      using extract_iterations_other[OF 4] by simp
    also have "\<dots> = map_of m1 ''error_rate''"
      using extract_reqs_other[OF 3] by simp
    also have "\<dots> = map_of [] ''error_rate''"
      using extract_duration_other[OF 1] by simp
    finally show ?thesis by simp
  qed
qed

lemma extract_metrics_truthy:
  assumes "extract_metrics data = Inr m" and "m \<noteq> []"
  shows "py_truthy data"
  using assms
  by (cases data)
     (auto simp: extract_metrics_def and_then_def extract_duration_def has_group_def
           split: if_splits sum.splits)

lemma summary_line_displayable:
  assumes "displayable_at m key"
  shows "summary_line label key m s = (Inr (), py_print (SummaryLine label (displayed m key)) s)"
proof (cases "map_of m key")
  case None
  then show ?thesis by (simp add: summary_line_def displayed_def)
next
  case (Some v)
  with assms have "displayable v"
    by (simp add: displayable_at_def)
  then show ?thesis
    using Some by (cases v) (simp_all add: summary_line_def displayed_def)
qed

lemma print_summary_displayable:
  assumes "summary_displayable m"
  shows "print_summary m s =
     (Inr (),
      py_print (SummaryLine ''Error Rate'' (displayed m ''error_rate''))
     (py_print (SummaryLine ''P99 Latency'' (displayed m ''p99_latency''))
     (py_print (SummaryLine ''P95 Latency'' (displayed m ''p95_latency''))
     (py_print (SummaryLine ''Avg Latency'' (displayed m ''avg_latency''))
     (py_print (SummaryLine ''Max VUs'' (displayed m ''max_vus''))
     (py_print (SummaryLine ''RPS'' (displayed m ''requests_per_second''))
     (py_print (SummaryLine ''Total Requests'' (displayed m ''total_requests''))
     (py_print SummaryHeader s))))))))"
  using assms
  by (simp add: print_summary_def seq_def summary_displayable_def summary_line_displayable)

lemma threshold_checks_nothing_to_check:
  assumes "map_of m ''p95_latency'' = None" and "map_of m ''error_rate'' = None"
  shows "threshold_checks m s = (Inr True, py_print ChecksHeader s)"
  using assms
  by (simp add: threshold_checks_def seq_def check_p95_def check_error_rate_def
        check_success_rate_def)

section \<open>Properties\<close>

subsection \<open>Command line\<close>

text \<open>
  C1, as amended: invoking the program with no argument after the program name is invalid:
  it prints the usage message and exits with code 1, and no file is read (the result does
  not depend on the file system). With one or more arguments after the program name, file
  processing proceeds: the banner and the threshold table are printed and the analysis of
  the first file starts.
\<close>

theorem usage_only_without_arguments:
  "main fs [prog] s = (Exit 1, py_print (Usage prog) s) \<and>
   (\<exists>ls. stdout (snd (main fs (prog # file_path # rest) initial_state)) =
      [Banner, Rule, ThresholdsHeader,
       ThresholdLine ''P95 Latency'' ''<='' 500,
       ThresholdLine ''Error Rate'' ''<='' (1 / 10),
       ThresholdLine ''Success Rate'' ''>='' (999 / 10),
       Analyzing file_path, Rule] @ ls)"
proof
  show "main fs [prog] s = (Exit 1, py_print (Usage prog) s)"
    by (simp add: main_def)
next
  let ?s = "py_print (ThresholdLine ''Success Rate'' ''>='' (999 / 10))
           (py_print (ThresholdLine ''Error Rate'' ''<='' (1 / 10))
           (py_print (ThresholdLine ''P95 Latency'' ''<='' 500)
           (py_print ThresholdsHeader (py_print Rule (py_print Banner initial_state)))))"
  have start: "seq print_thresholds (\<lambda>_. main_loop fs (file_path # rest) True) initial_state =
          main_loop fs (file_path # rest) True ?s"
    by (simp add: seq_def print_thresholds_initial)
  obtain r s' where loop: "main_loop fs (file_path # rest) True ?s = (r, s')"
    by (cases "main_loop fs (file_path # rest) True ?s")
  from main_loop_header[of fs file_path rest True ?s] loop
  obtain ls where s': "stdout s' = stdout ?s @ Analyzing file_path # Rule # ls"
    by auto
  have "\<exists>ls'. stdout (snd (main fs (prog # file_path # rest) initial_state)) = stdout s' @ ls'"
    by (rule main_stdout_after_loop) (simp only: start loop)
  then show "\<exists>ls. stdout (snd (main fs (prog # file_path # rest) initial_state)) =
      [Banner, Rule, ThresholdsHeader,
       ThresholdLine ''P95 Latency'' ''<='' 500,
       ThresholdLine ''Error Rate'' ''<='' (1 / 10),
       ThresholdLine ''Success Rate'' ''>='' (999 / 10),
       Analyzing file_path, Rule] @ ls"
    using s' by (auto simp: initial_state_def)
qed

text \<open>
  The claim as first stated also made a single argument invalid. With exactly one file,
  a document with p(95) = 450 and failure rate 0.0005, the program analyses the file,
  prints no usage message and exits with code 0.
\<close>

theorem one_argument_is_processed:
  "main (directory [(''results.json'', result_document 450 (5 / 10000))])
        [''check_thresholds.py'', ''results.json''] initial_state
   = (Exit 0,
      \<lparr>THRESHOLDS = [(''p95_latency_ms'', 500), (''error_rate_percent'', 1 / 10),
                     (''success_rate_percent'', 999 / 10)],
       stdout = [Banner, Rule, ThresholdsHeader,
        ThresholdLine ''P95 Latency'' ''<='' 500,
        ThresholdLine ''Error Rate'' ''<='' (1 / 10),
        ThresholdLine ''Success Rate'' ''>='' (999 / 10),
        Analyzing ''results.json'', Rule, SummaryHeader,
        SummaryLine ''Total Requests'' 0, SummaryLine ''RPS'' 0,
        SummaryLine ''Max VUs'' 0, SummaryLine ''Avg Latency'' 0,
        SummaryLine ''P95 Latency'' 450, SummaryLine ''P99 Latency'' 0,
        SummaryLine ''Error Rate'' (1 / 20), ChecksHeader,
        CheckLine True ''P95 Latency'' 450 ''<='' 500,
        CheckLine True ''Error Rate'' (1 / 20) ''<='' (1 / 10),
        CheckLine True ''Success Rate'' (1999 / 20) ''>='' (999 / 10), Rule,
        AllPassed]\<rparr>)"
  by (simp add: run_defs)

subsection \<open>Files that cannot be loaded\<close>




subsection \<open>A single check\<close>


subsection \<open>Exit code of a batch\<close>

text \<open>
  C4: for every batch of input files (at least one file, the run without a file being
  the usage error), the exit code of the process is 0 exactly when the analysis of every
  file returns true, and 1 otherwise: the overall result is the conjunction of the
  per-file results, so one failing file forces exit code 1. The result of a file does not
  depend on what was printed before it, so it is taken on the initial state. An analysis
  that raises has no result; the interpreter then exits with status 1.
\<close>

theorem exit_code_is_conjunction_of_files:
  "exit_code (fst (main fs (prog # file_path # rest) initial_state)) =
     (if list_all (\<lambda>p. fst (analyze_results fs p initial_state) = Inr True) (file_path # rest)
      then 0 else 1)"
  by (rule main_exit_code_files)

theorem exit_code_is_conjunction_of_files_witness:
  "exit_code (fst (main (directory [(''ok.json'', result_document 450 (5 / 10000)),
                                    (''slow.json'', result_document 600 (2 / 1000))])
                    [''check_thresholds.py'', ''ok.json'', ''slow.json''] initial_state)) = 1 \<and>
   fst (analyze_results (directory [(''ok.json'', result_document 450 (5 / 10000)),
                                    (''slow.json'', result_document 600 (2 / 1000))])
          ''ok.json'' initial_state) = Inr True \<and>
   fst (analyze_results (directory [(''ok.json'', result_document 450 (5 / 10000)),
                                    (''slow.json'', result_document 600 (2 / 1000))])
          ''slow.json'' initial_state) = Inr False"
  using exit_code_is_conjunction_of_files
          [of "directory [(''ok.json'', result_document 450 (5 / 10000)),
                          (''slow.json'', result_document 600 (2 / 1000))]"
              "''check_thresholds.py''" "''ok.json''" "[''slow.json'']"]
  by (simp add: run_defs)

subsection \<open>Checks that depend on the error rate\<close>

text \<open>
  C5: for every result document whose metrics mapping lacks the \<^verbatim>\<open>http_req_failed\<close>
  group, extraction yields no \<^verbatim>\<open>error_rate\<close> key, and consequently the error-rate check
  and the derived success-rate check are both skipped: they print nothing and leave the
  running conjunction of the file as it was.
\<close>

theorem missing_failure_group_skips_checks:
  assumes "map_of d ''metrics'' = Some (PDict g)"
    and "map_of g ''http_req_failed'' = None"
    and "extract_metrics (PDict d) = Inr m"
  shows "map_of m ''error_rate'' = None \<and>
         check_error_rate m all_passed s = (Inr all_passed, s) \<and>
         check_success_rate m all_passed s = (Inr all_passed, s)"
proof -
  have "has_group (PDict d) ''http_req_failed'' = Inr False"
    using assms(1,2) by (simp add: has_group_def and_then_def)
  then have "map_of m ''error_rate'' = None"
    using assms(3) by (rule extract_metrics_no_failed_group)
  then show ?thesis
    by (simp add: check_error_rate_def check_success_rate_def)
qed

theorem missing_failure_group_skips_checks_witness:
  "extract_metrics (duration_document 450) =
     Inr [(''avg_latency'', PInt 0), (''p95_latency'', PNum 450),
          (''p99_latency'', PInt 0), (''max_latency'', PInt 0)] \<and>
   check_error_rate [(''avg_latency'', PInt 0), (''p95_latency'', PNum 450),
          (''p99_latency'', PInt 0), (''max_latency'', PInt 0)] True initial_state
     = (Inr True, initial_state) \<and>
   check_success_rate [(''avg_latency'', PInt 0), (''p95_latency'', PNum 450),
          (''p99_latency'', PInt 0), (''max_latency'', PInt 0)] True initial_state
     = (Inr True, initial_state)"
proof -
  let ?g = "[(''http_req_duration'', PDict [(''values'', PDict [(''p(95)'', PNum 450)])])]"
  let ?d = "[(''metrics'', PDict ?g)]"
  let ?m = "[(''avg_latency'', PInt 0), (''p95_latency'', PNum 450),
             (''p99_latency'', PInt 0), (''max_latency'', PInt 0)]"
  have 1: "map_of ?d ''metrics'' = Some (PDict ?g)" by simp
  have 2: "map_of ?g ''http_req_failed'' = None" by simp
  have 3: "extract_metrics (PDict ?d) = Inr ?m"
    by (simp add: run_defs)
  show ?thesis
    using 3 missing_failure_group_skips_checks
              [where d = ?d and g = ?g and m = ?m and all_passed = True and s = initial_state,
               OF 1 2 3]
    by (simp add: duration_document_def)
qed



subsection \<open>End-to-end scenarios\<close>

text \<open>
  C7: for a single input document with \<^verbatim>\<open>http_req_duration.values.p(95)\<close> = 450 and
  \<^verbatim>\<open>http_req_failed.values.rate\<close> = 0.0005, the three checks (p95 latency, error rate
  at 0.05 percent, success rate at 99.95 percent) pass and the exit code is 0; for a
  document with p(95) = 600 and rate = 0.002 the three checks fail and the exit code is 1.
\<close>

theorem end_to_end_scenarios:
  "fst (main (directory [(''results.json'', result_document 450 (5 / 10000))])
          [''check_thresholds.py'', ''results.json''] initial_state) = Exit 0 \<and>
   filter is_check (stdout (snd (main (directory [(''results.json'', result_document 450 (5 / 10000))])
          [''check_thresholds.py'', ''results.json''] initial_state))) =
     [CheckLine True ''P95 Latency'' 450 ''<='' 500,
      CheckLine True ''Error Rate'' (5 / 100) ''<='' (1 / 10),
      CheckLine True ''Success Rate'' (9995 / 100) ''>='' (999 / 10)] \<and>
   fst (main (directory [(''results.json'', result_document 600 (2 / 1000))])
          [''check_thresholds.py'', ''results.json''] initial_state) = Exit 1 \<and>
   filter is_check (stdout (snd (main (directory [(''results.json'', result_document 600 (2 / 1000))])
          [''check_thresholds.py'', ''results.json''] initial_state))) =
     [CheckLine False ''P95 Latency'' 600 ''<='' 500,
      CheckLine False ''Error Rate'' (2 / 10) ''<='' (1 / 10),
      CheckLine False ''Success Rate'' (998 / 10) ''>='' (999 / 10)]"
  by (simp add: run_defs)

subsection \<open>The threshold table\<close>

text \<open>
  C8: the threshold table is immutable for the life of the process: its three entries
  (p95 latency with upper bound 500 ms, error rate with upper bound 0.1 percent, success
  rate with lower bound 99.9 percent) are fixed at the start, and no operation (load,
  check, analyze, the loop over the files, the whole run) modifies it. Extraction is a
  function of the document alone and has no access to the table.
\<close>

theorem thresholds_immutable:
  "THRESHOLDS initial_state =
     [(''p95_latency_ms'', 500), (''error_rate_percent'', 1 / 10), (''success_rate_percent'', 999 / 10)] \<and>
   THRESHOLDS (snd (load_results fs file_path s)) = THRESHOLDS s \<and>
   THRESHOLDS (snd (check_threshold name v thr b s)) = THRESHOLDS s \<and>
   THRESHOLDS (snd (analyze_results fs file_path s)) = THRESHOLDS s \<and>
   THRESHOLDS (snd (main_loop fs files all_passed s)) = THRESHOLDS s \<and>
   THRESHOLDS (snd (main fs argv s)) = THRESHOLDS s"
  by (simp add: initial_state_def console_only_THRESHOLDS load_results_console
        check_threshold_console analyze_results_console main_loop_console main_console)

subsection \<open>Documents without a checked metric\<close>

text \<open>
  C9, as amended: for every document whose extracted metrics are not empty, hold neither
  a \<^verbatim>\<open>p95_latency\<close> key nor an \<^verbatim>\<open>error_rate\<close> key (a document with the \<^verbatim>\<open>vus\<close>
  group only, for example), and hold under each key that the summary block prints a
  number that the float format can display (a float, a boolean, or an int below
  \<open>float_overflow_bound\<close> in magnitude), the analysis of the file runs no threshold check
  and returns true, so that such a file alone gives exit code 0.
\<close>

theorem no_checked_metric_passes:
  assumes "fs file_path = Inr data"
    and "extract_metrics data = Inr m"
    and "m \<noteq> []"
    and "map_of m ''p95_latency'' = None"
    and "map_of m ''error_rate'' = None"
    and "summary_displayable m"
  shows "analyze_results fs file_path s =
           (Inr True,
            s\<lparr>stdout := stdout s @
               [Analyzing file_path, Rule, SummaryHeader,
                SummaryLine ''Total Requests'' (displayed m ''total_requests''),
                SummaryLine ''RPS'' (displayed m ''requests_per_second''),
                SummaryLine ''Max VUs'' (displayed m ''max_vus''),
                SummaryLine ''Avg Latency'' (displayed m ''avg_latency''),
                SummaryLine ''P95 Latency'' 0,
                SummaryLine ''P99 Latency'' (displayed m ''p99_latency''),
                SummaryLine ''Error Rate'' 0,
                ChecksHeader]\<rparr>) \<and>
         exit_code (fst (main fs [prog, file_path] initial_state)) = 0"
proof -
  have truthy: "py_truthy data"
    using assms(2,3) by (rule extract_metrics_truthy)
  have zero: "displayed m ''p95_latency'' = 0" "displayed m ''error_rate'' = 0"
    using assms(4,5) by (simp_all add: displayed_def)
  have run: "\<And>t. fst (analyze_results fs file_path t) = Inr True"
    using assms(1,2,3) truthy
    by (simp add: analyze_results_def load_results_def seq_def print_summary_displayable[OF assms(6)]
          threshold_checks_nothing_to_check[OF assms(4,5)])
  have "analyze_results fs file_path s =
           (Inr True,
            s\<lparr>stdout := stdout s @
               [Analyzing file_path, Rule, SummaryHeader,
                SummaryLine ''Total Requests'' (displayed m ''total_requests''),
                SummaryLine ''RPS'' (displayed m ''requests_per_second''),
                SummaryLine ''Max VUs'' (displayed m ''max_vus''),
                SummaryLine ''Avg Latency'' (displayed m ''avg_latency''),
                SummaryLine ''P95 Latency'' 0,
                SummaryLine ''P99 Latency'' (displayed m ''p99_latency''),
                SummaryLine ''Error Rate'' 0,
                ChecksHeader]\<rparr>)"
    using assms(1,2,3) truthy
    by (simp add: analyze_results_def load_results_def seq_def print_summary_displayable[OF assms(6)]
          threshold_checks_nothing_to_check[OF assms(4,5)] zero py_print_def)
  moreover have "exit_code (fst (main fs [prog, file_path] initial_state)) = 0"
    using main_exit_code_files[of fs prog file_path "[]"] run by simp
  ultimately show ?thesis by simp
qed

theorem no_checked_metric_passes_witness:
  "analyze_results (directory [(''results.json'', vus_document (PNum 50))]) ''results.json'' initial_state =
     (Inr True,
      initial_state\<lparr>stdout :=
         [Analyzing ''results.json'', Rule, SummaryHeader,
          SummaryLine ''Total Requests'' 0, SummaryLine ''RPS'' 0, SummaryLine ''Max VUs'' 50,
          SummaryLine ''Avg Latency'' 0, SummaryLine ''P95 Latency'' 0,
          SummaryLine ''P99 Latency'' 0, SummaryLine ''Error Rate'' 0, ChecksHeader]\<rparr>) \<and>
   exit_code (fst (main (directory [(''results.json'', vus_document (PNum 50))])
      [''check_thresholds.py'', ''results.json''] initial_state)) = 0"
proof -
  have 1: "directory [(''results.json'', vus_document (PNum 50))] ''results.json'' = Inr (vus_document (PNum 50))"
    by (simp add: directory_def)
  have 2: "extract_metrics (vus_document (PNum 50)) = Inr [(''max_vus'', PNum 50)]"
    by (simp add: vus_document_def extract_metrics_def extract_duration_def extract_failed_def
          extract_reqs_def extract_iterations_def extract_vus_def has_group_def group_values_def
          and_then_def)
  have 3: "[(''max_vus'', PNum 50)] \<noteq> []" by simp
  have 4: "map_of [(''max_vus'', PNum 50)] ''p95_latency'' = None" by simp
  have 5: "map_of [(''max_vus'', PNum 50)] ''error_rate'' = None" by simp
  have 6: "summary_displayable [(''max_vus'', PNum 50)]"
    by (simp add: summary_displayable_def displayable_at_def)
  show ?thesis
    using no_checked_metric_passes[where fs = "directory [(''results.json'', vus_document (PNum 50))]"
        and file_path = "''results.json''" and s = initial_state and prog = "''check_thresholds.py''",
        OF 1 2 3 4 5 6]
    by (simp add: displayed_def initial_state_def)
qed

subsection \<open>The two checks on the error rate agree\<close>



text \<open>
  The claim as first stated had no condition on the values. A document with the
  \<^verbatim>\<open>vus\<close> group only whose \<^verbatim>\<open>max\<close> is a JSON string yields the non-empty metrics
  \<open>[(''max_vus'', PStr ''fifty'')]\<close>, with neither checked key; the summary line for
  \<^verbatim>\<open>Max VUs\<close> then raises ValueError, the analysis returns nothing and the process
  exits with status 1.
\<close>

theorem string_valued_metric_raises:
  "extract_metrics (vus_document (PStr ''fifty'')) = Inr [(''max_vus'', PStr ''fifty'')] \<and>
   analyze_results (directory [(''results.json'', vus_document (PStr ''fifty''))])
       ''results.json'' initial_state
     = (Inl ValueError,
        \<lparr>THRESHOLDS = [(''p95_latency_ms'', 500), (''error_rate_percent'', 1 / 10),
                       (''success_rate_percent'', 999 / 10)],
         stdout = [Analyzing ''results.json'', Rule, SummaryHeader,
                   SummaryLine ''Total Requests'' 0, SummaryLine ''RPS'' 0]\<rparr>) \<and>
   main (directory [(''results.json'', vus_document (PStr ''fifty''))])
        [''check_thresholds.py'', ''results.json''] initial_state
     = (Uncaught ValueError,
        \<lparr>THRESHOLDS = [(''p95_latency_ms'', 500), (''error_rate_percent'', 1 / 10),
                       (''success_rate_percent'', 999 / 10)],
         stdout = [Banner, Rule, ThresholdsHeader,
          ThresholdLine ''P95 Latency'' ''<='' 500,
          ThresholdLine ''Error Rate'' ''<='' (1 / 10),
          ThresholdLine ''Success Rate'' ''>='' (999 / 10),
          Analyzing ''results.json'', Rule, SummaryHeader,
          SummaryLine ''Total Requests'' 0, SummaryLine ''RPS'' 0]\<rparr>) \<and>
   exit_code (fst (main (directory [(''results.json'', vus_document (PStr ''fifty''))])
        [''check_thresholds.py'', ''results.json''] initial_state)) = 1"
  by (simp add: run_defs)

section \<open>Error rates that are Python ints\<close>

text \<open>
  A failure rate written in the file as the integer 0 or 1 gives an \<^verbatim>\<open>int\<close> error rate.
  The two checks on it compare as on a float, the success rate being 100 minus the
  error rate, as long as both numbers can be displayed.
\<close>

lemma int_error_rate_checks:
  assumes "map_of m ''error_rate'' = Some (PInt n)"
    and "THRESHOLDS s = THRESHOLDS initial_state"
    and "displayable (PInt n)" and "displayable (PInt (100 - n))"
  shows "check_error_rate m all_passed s =
           (Inr (all_passed \<and> (of_int n :: rat) \<le> 1 / 10),
            py_print (CheckLine ((of_int n :: rat) \<le> 1 / 10) ''Error Rate'' (of_int n :: rat) ''<='' (1 / 10)) s) \<and>
         check_success_rate m all_passed s =
           (Inr (all_passed \<and> (of_int (100 - n) :: rat) \<ge> 999 / 10),
            py_print (CheckLine ((of_int (100 - n) :: rat) \<ge> 999 / 10) ''Success Rate''
                        (of_int (100 - n) :: rat) ''>='' (999 / 10)) s)"
  using assms
  by (simp add: check_error_rate_def check_success_rate_def threshold_initial seq_def
        check_threshold_def)

section \<open>Other documents that end the run\<close>

text \<open>
  The script validates nothing beyond what \<^verbatim>\<open>json.load\<close> accepts. Two more inputs on
  which an exception ends the process: an \<^verbatim>\<open>int\<close> too large for a float under the
  summary's format, and a document whose \<^verbatim>\<open>metrics\<close> entry is a number.
\<close>

lemma huge_int_metric_raises:
  "fst (main (directory [(''results.json'', vus_document (PInt (10 ^ 309)))])
        [''check_thresholds.py'', ''results.json''] initial_state) = Uncaught OverflowError"
  by (simp add: run_defs float_overflow_bound_def)

lemma largest_int_displayed:
  "py_format_f (PInt (float_overflow_bound - 1)) = Inr (of_int (float_overflow_bound - 1)) \<and>
   py_format_f (PInt float_overflow_bound) = Inl OverflowError"
  by (simp add: float_overflow_bound_def)

lemma wrong_shape_document_raises:
  "fst (main (directory [(''results.json'', PDict [(''metrics'', PNum 5)])])
        [''check_thresholds.py'', ''results.json''] initial_state) = Uncaught TypeError"
  by (simp add: run_defs)

end
